theory Spec2Isabelle
  imports Main "HOL-Library.Sublist" "HOL-Library.AList"
begin

section \<open>Query keys and the query client\<close>

text \<open>
  A query key of the data-fetching library is a read-only array of serialisable values.
  The hooks build keys from strings, nested arrays and plain objects.
\<close>

datatype key_part =
    KStr string
  | KArr "key_part list"
  | KObj "(string \<times> key_part) list"

type_synonym QueryKey = "key_part list"

text \<open>
  The hooks call \<^verbatim>\<open>queryClient.invalidateQueries\<close> in two forms: with a filter object
  \<^verbatim>\<open>{ queryKey: key }\<close> and with a query key as the first positional argument.
  The query client is modelled by the calls it has received, oldest first.
\<close>

datatype invalidate_call =
    Filters key_part
  | Key QueryKey

type_synonym QueryClient = "invalidate_call list"

definition invalidateQueries :: "QueryClient \<Rightarrow> invalidate_call \<Rightarrow> QueryClient" where
  "invalidateQueries queryClient c = queryClient @ [c]"

section \<open>Mutation options\<close>

text \<open>
  An \<^verbatim>\<open>onSuccess\<close> callback receives the arguments of the library (data, variables,
  context), may use the query client, and returns a value or \<^verbatim>\<open>undefined\<close> (\<open>None\<close>).
  The other properties of \<^verbatim>\<open>UseMutationOptions\<close> are kept by name.
\<close>

type_synonym ('a, 'r) handler = "'a \<Rightarrow> QueryClient \<Rightarrow> 'r option \<times> QueryClient"

record ('a, 'r, 'v) UseMutationOptions =
  onSuccess :: "('a, 'r) handler option"
  others :: "string \<rightharpoonup> 'v"

text \<open>\<^verbatim>\<open>{ ...options, onSuccess: f }\<close>, where \<^verbatim>\<open>options\<close> may be undefined.\<close>

definition spread_onSuccess ::
  "('a, 'r, 'v) UseMutationOptions option \<Rightarrow> ('a, 'r) handler \<Rightarrow> ('a, 'r, 'v) UseMutationOptions"
where
  "spread_onSuccess options f =
     (case options of
        None \<Rightarrow> \<lparr>onSuccess = Some f, others = Map.empty\<rparr>
      | Some opts \<Rightarrow> opts\<lparr>onSuccess := Some f\<rparr>)"

text \<open>\<^verbatim>\<open>options?.onSuccess\<close>.\<close>

definition options_onSuccess ::
  "('a, 'r, 'v) UseMutationOptions option \<Rightarrow> ('a, 'r) handler option"
where
  "options_onSuccess options = (case options of None \<Rightarrow> None | Some opts \<Rightarrow> onSuccess opts)"

text \<open>
  What the library does with the options of a mutation that has succeeded: it calls
  \<^verbatim>\<open>options.onSuccess\<close> when there is one.
\<close>

definition mutation_succeeds ::
  "('a, 'r, 'v) UseMutationOptions option \<Rightarrow> ('a, 'r) handler"
where
  "mutation_succeeds options args queryClient =
     (case options_onSuccess options of
        None \<Rightarrow> (None, queryClient)
      | Some f \<Rightarrow> f args queryClient)"

section \<open>Custom hooks: \<^verbatim>\<open>buildCustomOptions\<close>\<close>

datatype RelatedDomain =
    RD_product
  | RD_customer
  | RD_customer_group
  | RD_order
  | RD_discount
  | RD_gift_card
  | RD_price_list

text \<open>
  \<^verbatim>\<open>RelatedDomains\<close> is an object with optional boolean properties: the list holds
  its own properties in enumeration order, one entry for each key.
\<close>

type_synonym RelatedDomains = "(RelatedDomain \<times> bool) list"

definition Object_keys :: "RelatedDomains \<Rightarrow> RelatedDomain list" where
  "Object_keys relatedDomains = map fst relatedDomains"

definition truthy_flag :: "RelatedDomains \<Rightarrow> RelatedDomain \<Rightarrow> bool" where
  "truthy_flag relatedDomains key = (map_of relatedDomains key = Some True)"

text \<open>
  The \<^verbatim>\<open>all\<close> keys of the seven admin key factories are imported from other modules;
  they are parameters here.
\<close>

record AdminKeys =
  adminProductKeys_all :: QueryKey
  adminCustomerKeys_all :: QueryKey
  adminCustomerGroupKeys_all :: QueryKey
  adminOrderKeys_all :: QueryKey
  adminDiscountKeys_all :: QueryKey
  adminGiftCardKeys_all :: QueryKey
  adminPriceListKeys_all :: QueryKey

fun invalidateRelatedDomain :: "AdminKeys \<Rightarrow> QueryClient \<Rightarrow> RelatedDomain \<Rightarrow> QueryClient" where
  "invalidateRelatedDomain K queryClient RD_product =
     invalidateQueries queryClient (Key (adminProductKeys_all K))"
| "invalidateRelatedDomain K queryClient RD_customer =
     invalidateQueries queryClient (Key (adminCustomerKeys_all K))"
| "invalidateRelatedDomain K queryClient RD_customer_group =
     invalidateQueries queryClient (Key (adminCustomerGroupKeys_all K))"
| "invalidateRelatedDomain K queryClient RD_order =
     invalidateQueries queryClient (Key (adminOrderKeys_all K))"
| "invalidateRelatedDomain K queryClient RD_discount =
     invalidateQueries queryClient (Key (adminDiscountKeys_all K))"
| "invalidateRelatedDomain K queryClient RD_gift_card =
     invalidateQueries queryClient (Key (adminGiftCardKeys_all K))"
| "invalidateRelatedDomain K queryClient RD_price_list =
     invalidateQueries queryClient (Key (adminPriceListKeys_all K))"

definition customOnSuccess ::
  "AdminKeys \<Rightarrow> QueryKey option \<Rightarrow> ('a, 'r, 'v) UseMutationOptions option \<Rightarrow>
   RelatedDomains option \<Rightarrow> ('a, 'r) handler"
where
  "customOnSuccess K queryKey options relatedDomains args queryClient =
     (let qc1 = (case queryKey of
                   None \<Rightarrow> queryClient
                 | Some keys \<Rightarrow>
                     fold (\<lambda>key qc. invalidateQueries qc (Filters key)) keys queryClient);
          qc2 = (case relatedDomains of
                   None \<Rightarrow> qc1
                 | Some rd \<Rightarrow>
                     fold (\<lambda>key qc. if truthy_flag rd key
                                     then invalidateRelatedDomain K qc key else qc)
                       (Object_keys rd) qc1)
      in case options_onSuccess options of
           None \<Rightarrow> (None, qc2)
         | Some f \<Rightarrow> f args qc2)"

definition buildCustomOptions ::
  "AdminKeys \<Rightarrow> QueryKey option \<Rightarrow> ('a, 'r, 'v) UseMutationOptions option \<Rightarrow>
   RelatedDomains option \<Rightarrow> ('a, 'r, 'v) UseMutationOptions"
where
  "buildCustomOptions K queryKey options relatedDomains =
     spread_onSuccess options (customOnSuccess K queryKey options relatedDomains)"



text \<open>The key set of a related domain: the \<^verbatim>\<open>all\<close> key of the domain's key factory.\<close>

definition domain_all :: "AdminKeys \<Rightarrow> RelatedDomain \<Rightarrow> QueryKey" where
  "domain_all K d =
     (case d of
        RD_product \<Rightarrow> adminProductKeys_all K
      | RD_customer \<Rightarrow> adminCustomerKeys_all K
      | RD_customer_group \<Rightarrow> adminCustomerGroupKeys_all K
      | RD_order \<Rightarrow> adminOrderKeys_all K
      | RD_discount \<Rightarrow> adminDiscountKeys_all K
      | RD_gift_card \<Rightarrow> adminGiftCardKeys_all K
      | RD_price_list \<Rightarrow> adminPriceListKeys_all K)"

text \<open>The calls made by the wrapped handler before the caller's handler runs.\<close>

definition custom_invalidations ::
  "AdminKeys \<Rightarrow> QueryKey option \<Rightarrow> RelatedDomains option \<Rightarrow> invalidate_call list"
where
  "custom_invalidations K queryKey relatedDomains =
     (case queryKey of None \<Rightarrow> [] | Some keys \<Rightarrow> map Filters keys) @
     (case relatedDomains of
        None \<Rightarrow> []
      | Some rd \<Rightarrow> map (\<lambda>d. Key (domain_all K d)) (filter (truthy_flag rd) (Object_keys rd)))"

section \<open>Hooks built with \<^verbatim>\<open>buildOptions\<close>\<close>

text \<open>
  The stock-location mutations build their options with \<^verbatim>\<open>buildOptions\<close>
  (hooks/utils/buildOptions), which they import and which is not among the sources. It is
  a parameter of the hooks here: a function from the list of query keys and the caller's
  options to the options handed to \<^verbatim>\<open>useMutation\<close>.
\<close>

type_synonym ('a, 'r, 'v) build_options =
  "QueryKey option \<Rightarrow> ('a, 'r, 'v) UseMutationOptions option \<Rightarrow> ('a, 'r, 'v) UseMutationOptions"

text \<open>
  A key factory (\<^verbatim>\<open>queryKeysFactory\<close>, not among the sources) is a parameter: the
  hooks below use its \<^verbatim>\<open>all\<close>, \<^verbatim>\<open>lists()\<close> and \<^verbatim>\<open>detail(id)\<close> keys.
\<close>

record KeyFactory =
  all_key :: QueryKey
  lists_key :: QueryKey
  detail_key :: "string \<Rightarrow> QueryKey"

definition useAdminCreateStockLocation ::
  "('a, 'r, 'v) build_options \<Rightarrow> KeyFactory \<Rightarrow>
   ('a, 'r, 'v) UseMutationOptions option \<Rightarrow> ('a, 'r, 'v) UseMutationOptions option"
where
  "useAdminCreateStockLocation buildOptions adminStockLocationsKeys options =
     Some (buildOptions (Some [KArr (lists_key adminStockLocationsKeys)]) options)"

definition useAdminUpdateStockLocation ::
  "('a, 'r, 'v) build_options \<Rightarrow> KeyFactory \<Rightarrow> string \<Rightarrow>
   ('a, 'r, 'v) UseMutationOptions option \<Rightarrow> ('a, 'r, 'v) UseMutationOptions option"
where
  "useAdminUpdateStockLocation buildOptions adminStockLocationsKeys ident options =
     Some (buildOptions
       (Some [KArr (lists_key adminStockLocationsKeys),
              KArr (detail_key adminStockLocationsKeys ident)])
       options)"






section \<open>Swap query keys\<close>

text \<open>
  \<^verbatim>\<open>swapKey\<close> spreads the factory of the \<^verbatim>\<open>swaps\<close> domain and adds \<^verbatim>\<open>cart\<close>.
\<close>

definition swapKey_cart :: "KeyFactory \<Rightarrow> string \<Rightarrow> QueryKey" where
  "swapKey_cart swapKey cartId = all_key swapKey @ [KStr ''cart'', KStr cartId]"

text \<open>The key under which \<^verbatim>\<open>useCartSwap\<close> registers its query.\<close>

definition useCartSwap :: "KeyFactory \<Rightarrow> string \<Rightarrow> QueryKey" where
  "useCartSwap swapKey cartId = swapKey_cart swapKey cartId"

section \<open>Route handler: DELETE /admin/products/{id}\<close>

datatype tx_event =
    Tx_begin
  | Product_delete string
  | Tx_commit
  | Tx_rollback

text \<open>
  \<^verbatim>\<open>manager.transaction(cb)\<close>: the callback runs between begin and commit; when it
  throws, the transaction is rolled back (the database is as before) and the error
  is thrown on.
\<close>

definition manager_transaction ::
  "('db \<Rightarrow> tx_event list \<Rightarrow> ('e + 'x) \<times> 'db \<times> tx_event list) \<Rightarrow>
   'db \<Rightarrow> tx_event list \<Rightarrow> ('e + 'x) \<times> 'db \<times> tx_event list"
where
  "manager_transaction cb db log =
     (case cb db (log @ [Tx_begin]) of
        (Inl e, db', log') \<Rightarrow> (Inl e, db, log' @ [Tx_rollback])
      | (Inr x, db', log') \<Rightarrow> (Inr x, db', log' @ [Tx_commit]))"

text \<open>
  \<^verbatim>\<open>productService.withTransaction(transactionManager).delete(id)\<close>; the service is a
  parameter, and may throw.
\<close>

definition productService_delete ::
  "(string \<Rightarrow> 'db \<Rightarrow> 'e + 'db) \<Rightarrow> string \<Rightarrow>
   'db \<Rightarrow> tx_event list \<Rightarrow> ('e + unit) \<times> 'db \<times> tx_event list"
where
  "productService_delete delete ident db log =
     (case delete ident db of
        Inl e \<Rightarrow> (Inl e, db, log @ [Product_delete ident])
      | Inr db' \<Rightarrow> (Inr (), db', log @ [Product_delete ident]))"

record delete_request =
  params_id :: string

record delete_response =
  res_id :: string
  res_object :: string
  res_deleted :: bool

definition delete_product ::
  "(string \<Rightarrow> 'db \<Rightarrow> 'e + 'db) \<Rightarrow> delete_request \<Rightarrow>
   'db \<Rightarrow> tx_event list \<Rightarrow> ('e + delete_response) \<times> 'db \<times> tx_event list"
where
  "delete_product delete req db log =
     (let ident = params_id req
      in case manager_transaction (productService_delete delete ident) db log of
           (Inl e, db', log') \<Rightarrow> (Inl e, db', log')
         | (Inr _, db', log') \<Rightarrow>
             (Inr \<lparr>res_id = ident, res_object = ''product'', res_deleted = True\<rparr>, db', log'))"

section \<open>Route handler: GET /shipping-options\<close>

text \<open>Values of a parsed query string and of a validated instance.\<close>

datatype jsval =
    Undefined
  | Null
  | Bool bool
  | Str string
  | Arr "jsval list"
  | Obj "(string \<times> jsval) list"

text \<open>The decorators of the validation library.\<close>

definition IsOptional :: "jsval \<Rightarrow> bool" where
  "IsOptional v = (case v of Undefined \<Rightarrow> True | Null \<Rightarrow> True | _ \<Rightarrow> False)"

definition IsString :: "jsval \<Rightarrow> bool" where
  "IsString v = (case v of Str _ \<Rightarrow> True | _ \<Rightarrow> False)"

definition IsBoolean :: "jsval \<Rightarrow> bool" where
  "IsBoolean v = (case v of Bool _ \<Rightarrow> True | _ \<Rightarrow> False)"

text \<open>
  \<^verbatim>\<open>@Transform\<close> applies to a property that the plain object has; an absent property
  stays undefined.
\<close>

definition Transform :: "(jsval \<Rightarrow> jsval) \<Rightarrow> jsval \<Rightarrow> jsval" where
  "Transform f v = (case v of Undefined \<Rightarrow> Undefined | _ \<Rightarrow> f v)"

record AdminGetShippingOptionsParams =
  region_id :: jsval
  is_return :: jsval
  admin_only :: jsval

datatype validation_error = Invalid_data "string list"

text \<open>
  Modelled from the spec: the \<^verbatim>\<open>validator\<close> helper (utils/validator) is not among the
  sources. The spec describes the handlers as validating input before delegating:
  the helper turns the query into an instance of the class (running the transforms),
  checks each property against its decorators, throws when a property fails and
  returns the instance otherwise. \<^verbatim>\<open>optionalBooleanMapper\<close> is not among the sources
  either; its \<^verbatim>\<open>get\<close> is the parameter \<open>mapper_get\<close>.
\<close>

definition validator ::
  "(jsval \<Rightarrow> jsval) \<Rightarrow> AdminGetShippingOptionsParams \<Rightarrow>
   validation_error + AdminGetShippingOptionsParams"
where
  "validator mapper_get query =
     (let inst = \<lparr>region_id = region_id query,
                  is_return = Transform mapper_get (is_return query),
                  admin_only = Transform mapper_get (admin_only query)\<rparr>;
          errors =
            (if IsOptional (region_id inst) \<or> IsString (region_id inst) then [] else [''region_id'']) @
            (if IsOptional (is_return inst) \<or> IsBoolean (is_return inst) then [] else [''is_return'']) @
            (if IsOptional (admin_only inst) \<or> IsBoolean (admin_only inst) then [] else [''admin_only''])
      in if errors = [] then Inr inst else Inl (Invalid_data errors))"

record ('f, 'l) find_config =
  select :: 'f
  relations :: 'l

record 'o list_body =
  shipping_options :: "'o list"
  count :: int

record 'o list_response =
  status :: nat
  body :: "'o list_body"

datatype 'e handler_error =
    Validation_failed validation_error
  | Service_failed 'e

text \<open>
  The handler. \<open>defaultFields\<close> and \<open>defaultRelations\<close> are imported constants and
  \<open>listAndCount\<close> is the resolved service; the calls made to the service are logged.
\<close>

definition list_shipping_options ::
  "(jsval \<Rightarrow> jsval) \<Rightarrow> 'f \<Rightarrow> 'l \<Rightarrow>
   (AdminGetShippingOptionsParams \<Rightarrow> ('f, 'l) find_config \<Rightarrow> 'e + 'o list \<times> int) \<Rightarrow>
   AdminGetShippingOptionsParams \<Rightarrow>
   (AdminGetShippingOptionsParams \<times> ('f, 'l) find_config) list \<Rightarrow>
   ('e handler_error + 'o list_response) \<times> (AdminGetShippingOptionsParams \<times> ('f, 'l) find_config) list"
where
  "list_shipping_options mapper_get defaultFields defaultRelations listAndCount query calls =
     (case validator mapper_get query of
        Inl e \<Rightarrow> (Inl (Validation_failed e), calls)
      | Inr validatedParams \<Rightarrow>
          (let config = \<lparr>select = defaultFields, relations = defaultRelations\<rparr>;
               calls' = calls @ [(validatedParams, config)]
           in case listAndCount validatedParams config of
                Inl e \<Rightarrow> (Inl (Service_failed e), calls')
              | Inr (data, n) \<Rightarrow>
                  (Inr \<lparr>status = 200, body = \<lparr>shipping_options = data, count = n\<rparr>\<rparr>, calls')))"

section \<open>Price lists\<close>

text \<open>
  The pricing service is not among the sources; only its integration tests are. A price
  list is a row of named columns, and the store is the list of rows of the table.
\<close>

datatype fval =
    VStr string
  | VInt int
  | VNull

type_synonym PriceList = "(string \<times> fval) list"

definition row_id :: "PriceList \<Rightarrow> string option" where
  "row_id row = (case map_of row ''id'' of Some (VStr i) \<Rightarrow> Some i | _ \<Rightarrow> None)"

record FilterablePriceListProps =
  filter_id :: "string list option"

record FindConfig =
  cfg_skip :: "nat option"
  cfg_take :: "nat option"
  cfg_select :: "string list option"

text \<open>
  Modelled from the spec: the filter of the list operations. A filter without an
  \<^verbatim>\<open>id\<close> property matches every price list; with one, the price lists whose id is listed.
\<close>

definition matches :: "FilterablePriceListProps \<Rightarrow> PriceList \<Rightarrow> bool" where
  "matches filters row =
     (case filter_id filters of
        None \<Rightarrow> True
      | Some ids \<Rightarrow> (case row_id row of None \<Rightarrow> False | Some i \<Rightarrow> i \<in> set ids))"

text \<open>
  Modelled from the spec: the page selected by \<^verbatim>\<open>skip\<close> and \<^verbatim>\<open>take\<close>, and the
  restriction of a row to the fields of \<^verbatim>\<open>select\<close>.
\<close>

definition paginate :: "FindConfig \<Rightarrow> PriceList list \<Rightarrow> PriceList list" where
  "paginate config rows =
     (let skipped = (case cfg_skip config of None \<Rightarrow> rows | Some n \<Rightarrow> drop n rows)
      in case cfg_take config of None \<Rightarrow> skipped | Some n \<Rightarrow> take n skipped)"

definition select_fields :: "FindConfig \<Rightarrow> PriceList \<Rightarrow> PriceList" where
  "select_fields config row =
     (case cfg_select config of
        None \<Rightarrow> row
      | Some names \<Rightarrow> filter (\<lambda>(k, v). k \<in> set names) row)"

text \<open>
  Modelled from the spec: \<^verbatim>\<open>listPriceLists\<close> and \<^verbatim>\<open>listAndCountPriceLists\<close> of the
  pricing service (not among the sources): the matching price lists, paged and restricted
  to the selected fields, and the number of all matching price lists.
\<close>

definition listPriceLists ::
  "FilterablePriceListProps \<Rightarrow> FindConfig \<Rightarrow> PriceList list \<Rightarrow> PriceList list"
where
  "listPriceLists filters config db =
     map (select_fields config) (paginate config (filter (matches filters) db))"

definition listAndCountPriceLists ::
  "FilterablePriceListProps \<Rightarrow> FindConfig \<Rightarrow> PriceList list \<Rightarrow> PriceList list \<times> nat"
where
  "listAndCountPriceLists filters config db =
     (listPriceLists filters config db, length (filter (matches filters) db))"

definition double_quote :: string where
  "double_quote = [CHR 0x22]"

text \<open>
  Modelled from the spec: \<^verbatim>\<open>retrievePriceList\<close> of the pricing service (not among the
  sources), with the error messages that the integration tests expect. The argument is
  \<open>None\<close> when the caller passes \<^verbatim>\<open>undefined\<close>; \<open>double_quote\<close> is the character
  that encloses \<^verbatim>\<open>priceListId\<close> in the message.
\<close>

definition retrievePriceList :: "string option \<Rightarrow> PriceList list \<Rightarrow> string + PriceList" where
  "retrievePriceList priceListId db =
     (case priceListId of
        None \<Rightarrow> Inl (double_quote @ ''priceListId'' @ double_quote @ '' must be defined'')
      | Some i \<Rightarrow>
          (case find (\<lambda>row. row_id row = Some i) db of
             None \<Rightarrow> Inl (''PriceList with id: '' @ i @ '' was not found'')
           | Some row \<Rightarrow> Inr row))"

text \<open>
  Modelled from the spec: \<^verbatim>\<open>deletePriceLists\<close> of the pricing service (not among the
  sources) removes the price lists whose id is in the given list.
\<close>

definition deletePriceLists :: "string list \<Rightarrow> PriceList list \<Rightarrow> PriceList list" where
  "deletePriceLists ids db =
     filter (\<lambda>row. case row_id row of None \<Rightarrow> True | Some i \<Rightarrow> i \<notin> set ids) db"

text \<open>
  Modelled from the spec: \<^verbatim>\<open>updatePriceLists\<close> of the pricing service (not among the
  sources). Every update names a price list by id; the first id that no price list has
  makes the call fail with the message that the integration tests expect, and otherwise
  the columns given by each update are written to the price list of that id.
\<close>

definition apply_update :: "string \<times> (string \<times> fval) list \<Rightarrow> PriceList list \<Rightarrow> PriceList list" where
  "apply_update u db =
     map (\<lambda>row. if row_id row = Some (fst u)
                then fold (\<lambda>(k, v) r. AList.update k v r) (snd u) row
                else row) db"

definition updatePriceLists ::
  "(string \<times> (string \<times> fval) list) list \<Rightarrow> PriceList list \<Rightarrow> string + PriceList list"
where
  "updatePriceLists updates db =
     (case find (\<lambda>u. find (\<lambda>row. row_id row = Some (fst u)) db = None) updates of
        Some u \<Rightarrow>
          Inl (''PriceList with id '' @ double_quote @ fst u @ double_quote @ '' not found'')
      | None \<Rightarrow> Inr (fold apply_update updates db))"

section \<open>Example values\<close>

definition example_keys :: AdminKeys where
  "example_keys =
     \<lparr>adminProductKeys_all = [KStr ''admin_products''],
      adminCustomerKeys_all = [KStr ''admin_customers''],
      adminCustomerGroupKeys_all = [KStr ''admin_customer_groups''],
      adminOrderKeys_all = [KStr ''admin_orders''],
      adminDiscountKeys_all = [KStr ''admin_discounts''],
      adminGiftCardKeys_all = [KStr ''admin_gift_cards''],
      adminPriceListKeys_all = [KStr ''admin_price_lists'']\<rparr>"

definition example_factory :: "string \<Rightarrow> KeyFactory" where
  "example_factory globalKey =
     \<lparr>all_key = [KStr globalKey],
      lists_key = [KStr globalKey, KStr ''list''],
      detail_key = (\<lambda>ident. [KStr globalKey, KStr ''detail'', KStr ident])\<rparr>"

definition example_options :: "(unit, nat, nat) UseMutationOptions" where
  "example_options =
     \<lparr>onSuccess = Some (\<lambda>args queryClient. (Some (length queryClient), queryClient)),
      others = [''retry'' \<mapsto> 3]\<rparr>"

text \<open>A product store for the examples: the ids of the products; deleting an unknown id fails.\<close>

definition example_delete :: "string \<Rightarrow> string list \<Rightarrow> string + string list" where
  "example_delete ident db =
     (if ident \<in> set db then Inr (removeAll ident db) else Inl ''not found'')"

text \<open>A product service whose delete succeeds for every id; an unknown id changes nothing.\<close>

definition example_delete_quiet :: "string \<Rightarrow> string list \<Rightarrow> string + string list" where
  "example_delete_quiet ident db = Inr (removeAll ident db)"

definition example_mapper_get :: "jsval \<Rightarrow> jsval" where
  "example_mapper_get v =
     (if v = Str ''true'' then Bool True
      else if v = Str ''false'' then Bool False
      else if v = Str ''null'' then Null
      else Undefined)"

definition example_listAndCount ::
  "AdminGetShippingOptionsParams \<Rightarrow> (string list, string list) find_config \<Rightarrow>
   string + string list \<times> int"
where
  "example_listAndCount selector config =
     (if region_id selector = Str ''reg_1'' then Inr ([''so_1'', ''so_2''], 2) else Inr ([], 0))"

definition example_price_lists :: "PriceList list" where
  "example_price_lists =
     [[(''id'', VStr ''price-list-1''), (''number_rules'', VInt 0)],
      [(''id'', VStr ''price-list-2''), (''number_rules'', VInt 0)]]"

section \<open>Lemmas on the invalidation loops\<close>

lemma fold_invalidate_keys:
  "fold (\<lambda>key qc. invalidateQueries qc (Filters key)) keys queryClient
     = queryClient @ map Filters keys"
  by (induction keys arbitrary: queryClient) (simp_all add: invalidateQueries_def)

lemma invalidateRelatedDomain_domain_all:
  "invalidateRelatedDomain K queryClient d = queryClient @ [Key (domain_all K d)]"
  by (cases d) (simp_all add: domain_all_def invalidateQueries_def)

lemma fold_invalidate_domains:
  "fold (\<lambda>key qc. if truthy_flag rd key then invalidateRelatedDomain K qc key else qc)
        ds queryClient
     = queryClient @ map (\<lambda>d. Key (domain_all K d)) (filter (truthy_flag rd) ds)"
  by (induction ds arbitrary: queryClient) (simp_all add: invalidateRelatedDomain_domain_all)

lemma customOnSuccess_eq:
  "customOnSuccess K queryKey options relatedDomains args queryClient
     = mutation_succeeds options args
         (queryClient @ custom_invalidations K queryKey relatedDomains)"
  by (simp add: customOnSuccess_def mutation_succeeds_def custom_invalidations_def
      fold_invalidate_keys fold_invalidate_domains Let_def split: option.split)

lemma mutation_succeeds_spread:
  "mutation_succeeds (Some (spread_onSuccess options f)) = f"
  by (cases options) (simp_all add: mutation_succeeds_def options_onSuccess_def spread_onSuccess_def fun_eq_iff)

lemma buildCustomOptions_succeeds:
  "mutation_succeeds (Some (buildCustomOptions K queryKey options relatedDomains)) args queryClient
     = mutation_succeeds options args
         (queryClient @ custom_invalidations K queryKey relatedDomains)"
  by (simp add: buildCustomOptions_def mutation_succeeds_spread customOnSuccess_eq)



lemma others_spread:
  "others (spread_onSuccess (Some opts) f) = others opts"
  "others (spread_onSuccess None f) = Map.empty"
  by (simp_all add: spread_onSuccess_def)

section \<open>Lemmas on the route handlers\<close>

lemma manager_transaction_delete:
  "manager_transaction (productService_delete delete ident) db log =
     (case delete ident db of
        Inl e \<Rightarrow> (Inl e, db, log @ [Tx_begin, Product_delete ident, Tx_rollback])
      | Inr db' \<Rightarrow> (Inr (), db', log @ [Tx_begin, Product_delete ident, Tx_commit]))"
  by (simp add: manager_transaction_def productService_delete_def split: sum.split)

lemma validator_Inr_iff:
  "(\<exists>p. validator mapper_get query = Inr p) \<longleftrightarrow>
     (IsOptional (region_id query) \<or> IsString (region_id query)) \<and>
     (IsOptional (Transform mapper_get (is_return query)) \<or>
      IsBoolean (Transform mapper_get (is_return query))) \<and>
     (IsOptional (Transform mapper_get (admin_only query)) \<or>
      IsBoolean (Transform mapper_get (admin_only query)))"
  by (auto simp add: validator_def Let_def)

section \<open>Lemmas on the price lists\<close>

lemma find_row_Some:
  "\<exists>row \<in> set db. row_id row = Some i \<Longrightarrow>
     \<exists>row. find (\<lambda>row. row_id row = Some i) db = Some row \<and> row \<in> set db \<and> row_id row = Some i"
  by (induction db) auto

lemma find_row_None:
  "\<forall>row \<in> set db. row_id row \<noteq> Some i \<Longrightarrow> find (\<lambda>row. row_id row = Some i) db = None"
  by (simp add: find_None_iff)

lemma find_first_missing:
  "\<forall>u \<in> set us. P u \<Longrightarrow> \<not> P v \<Longrightarrow> find (\<lambda>u. \<not> P u) (us @ v # us') = Some v"
  by (induction us) auto

lemma set_paginate_subset: "set (paginate config rows) \<subseteq> set rows"
  by (auto simp add: paginate_def Let_def split: option.splits dest: in_set_takeD in_set_dropD)

section \<open>Claims\<close>

text \<open>
  C1. Options built by \<^verbatim>\<open>buildCustomOptions\<close> from a query-key list and a map of related
  domains: when the mutation succeeds, the \<^verbatim>\<open>onSuccess\<close> handler invalidates every key
  of the list and, for every related domain whose flag is true, the \<^verbatim>\<open>all\<close> key of that
  domain (product, customer, customer_group, order, discount, gift_card, price_list) and of
  no other; the caller's \<^verbatim>\<open>onSuccess\<close>, if any, runs after these calls, on the query
  client that has received them.
\<close>

theorem buildCustomOptions_invalidates_then_calls:
  "mutation_succeeds (Some (buildCustomOptions K (Some keys) options (Some rd))) args queryClient
     = mutation_succeeds options args
         (queryClient @ custom_invalidations K (Some keys) (Some rd))
   \<and> (\<forall>key \<in> set keys. Filters key \<in> set (custom_invalidations K (Some keys) (Some rd)))
   \<and> (\<forall>d. map_of rd d = Some True \<longrightarrow>
          Key (domain_all K d) \<in> set (custom_invalidations K (Some keys) (Some rd)))
   \<and> (\<forall>c \<in> set (custom_invalidations K (Some keys) (Some rd)).
          (\<exists>key \<in> set keys. c = Filters key) \<or>
          (\<exists>d. map_of rd d = Some True \<and> c = Key (domain_all K d)))
   \<and> domain_all K RD_product = adminProductKeys_all K
   \<and> domain_all K RD_customer = adminCustomerKeys_all K
   \<and> domain_all K RD_customer_group = adminCustomerGroupKeys_all K
   \<and> domain_all K RD_order = adminOrderKeys_all K
   \<and> domain_all K RD_discount = adminDiscountKeys_all K
   \<and> domain_all K RD_gift_card = adminGiftCardKeys_all K
   \<and> domain_all K RD_price_list = adminPriceListKeys_all K"
proof -
  have flagged: "map_of rd d = Some True \<Longrightarrow> d \<in> set (Object_keys rd)" for d
    by (auto simp: Object_keys_def dest: map_of_SomeD intro: rev_image_eqI)
  have a: "\<forall>key \<in> set keys. Filters key \<in> set (custom_invalidations K (Some keys) (Some rd))"
    by (simp add: custom_invalidations_def)
  have b: "\<forall>d. map_of rd d = Some True \<longrightarrow>
          Key (domain_all K d) \<in> set (custom_invalidations K (Some keys) (Some rd))"
    using flagged by (auto simp: custom_invalidations_def truthy_flag_def)
  have c: "\<forall>c \<in> set (custom_invalidations K (Some keys) (Some rd)).
          (\<exists>key \<in> set keys. c = Filters key) \<or>
          (\<exists>d. map_of rd d = Some True \<and> c = Key (domain_all K d))"
    by (auto simp: custom_invalidations_def truthy_flag_def)
  show ?thesis
    using a b c by (simp add: buildCustomOptions_succeeds domain_all_def)
qed

theorem buildCustomOptions_invalidates_then_calls_witness:
  "mutation_succeeds
     (Some (buildCustomOptions example_keys (Some [KStr ''posts''])
        (None :: (unit, unit, unit) UseMutationOptions option)
        (Some [(RD_product, True), (RD_order, False)])))
     () []
   = (None, [Filters (KStr ''posts''), Key [KStr ''admin_products'']])
   \<and> KStr ''posts'' \<in> set [KStr ''posts'']
   \<and> map_of [(RD_product, True), (RD_order, False)] RD_product = Some True
   \<and> Key [KStr ''admin_products'']
        \<in> set (custom_invalidations example_keys (Some [KStr ''posts''])
                 (Some [(RD_product, True), (RD_order, False)]))"
proof -
  have none: "mutation_succeeds (None :: (unit, unit, unit) UseMutationOptions option) () qc
                = (None, qc)" for qc
    by (simp add: mutation_succeeds_def options_onSuccess_def)
  have calls: "custom_invalidations example_keys (Some [KStr ''posts''])
                 (Some [(RD_product, True), (RD_order, False)])
               = [Filters (KStr ''posts''), Key [KStr ''admin_products'']]"
    by (simp add: custom_invalidations_def truthy_flag_def Object_keys_def domain_all_def
        example_keys_def)
  show ?thesis
    using buildCustomOptions_invalidates_then_calls
      [of example_keys "[KStr ''posts'']" "None :: (unit, unit, unit) UseMutationOptions option"
          "[(RD_product, True), (RD_order, False)]" "()" "[]"]
    by (simp add: none calls)
qed




text \<open>
  C3. \<^verbatim>\<open>retrievePriceList\<close> returns the price list whose id is the given id when there is
  one; when there is none it fails with the message \<^verbatim>\<open>PriceList with id: <id> was not found\<close>;
  when the id is undefined it fails with the message that \<^verbatim>\<open>priceListId\<close> (in double
  quotes) must be defined; and \<^verbatim>\<open>updatePriceLists\<close> fails with the message
  \<^verbatim>\<open>PriceList with id <id> not found\<close> (the id in double quotes) for the first id it is
  given that no price list has.
\<close>

theorem retrievePriceList_results:
  "((\<exists>row \<in> set db. row_id row = Some i) \<longrightarrow>
      (\<exists>row. retrievePriceList (Some i) db = Inr row \<and> row \<in> set db \<and> row_id row = Some i))
   \<and> ((\<forall>row \<in> set db. row_id row \<noteq> Some i) \<longrightarrow>
      retrievePriceList (Some i) db = Inl (''PriceList with id: '' @ i @ '' was not found''))
   \<and> retrievePriceList None db
       = Inl (double_quote @ ''priceListId'' @ double_quote @ '' must be defined'')
   \<and> ((\<forall>row \<in> set db. row_id row \<noteq> Some i) \<and>
       (\<forall>u \<in> set before. \<exists>row \<in> set db. row_id row = Some (fst u)) \<longrightarrow>
      updatePriceLists (before @ (i, changes) # after) db
        = Inl (''PriceList with id '' @ double_quote @ i @ double_quote @ '' not found''))"
proof -
  have a: "(\<exists>row \<in> set db. row_id row = Some i) \<longrightarrow>
      (\<exists>row. retrievePriceList (Some i) db = Inr row \<and> row \<in> set db \<and> row_id row = Some i)"
  proof
    assume "\<exists>row \<in> set db. row_id row = Some i"
    then obtain row where "find (\<lambda>row. row_id row = Some i) db = Some row"
      "row \<in> set db" "row_id row = Some i"
      using find_row_Some by blast
    then show "\<exists>row. retrievePriceList (Some i) db = Inr row \<and> row \<in> set db \<and> row_id row = Some i"
      by (simp add: retrievePriceList_def)
  qed
  have b: "(\<forall>row \<in> set db. row_id row \<noteq> Some i) \<longrightarrow>
      retrievePriceList (Some i) db = Inl (''PriceList with id: '' @ i @ '' was not found'')"
    by (simp add: retrievePriceList_def find_row_None)
  have c: "retrievePriceList None db
       = Inl (double_quote @ ''priceListId'' @ double_quote @ '' must be defined'')"
    by (simp add: retrievePriceList_def)
  have d: "(\<forall>row \<in> set db. row_id row \<noteq> Some i) \<and>
       (\<forall>u \<in> set before. \<exists>row \<in> set db. row_id row = Some (fst u)) \<longrightarrow>
      updatePriceLists (before @ (i, changes) # after) db
        = Inl (''PriceList with id '' @ double_quote @ i @ double_quote @ '' not found'')"
  proof
    assume h: "(\<forall>row \<in> set db. row_id row \<noteq> Some i) \<and>
       (\<forall>u \<in> set before. \<exists>row \<in> set db. row_id row = Some (fst u))"
    let ?P = "\<lambda>u. find (\<lambda>row. row_id row = Some (fst u)) db \<noteq> None"
    have "\<forall>u \<in> set before. ?P u"
      using h find_row_Some by fastforce
    moreover have "\<not> ?P (i, changes)"
      using h by (simp add: find_row_None)
    ultimately have "find (\<lambda>u. \<not> ?P u) (before @ (i, changes) # after) = Some (i, changes)"
      by (rule find_first_missing)
    then show "updatePriceLists (before @ (i, changes) # after) db
        = Inl (''PriceList with id '' @ double_quote @ i @ double_quote @ '' not found'')"
      by (simp add: updatePriceLists_def)
  qed
  show ?thesis using a b c d by blast
qed

theorem retrievePriceList_results_witness:
  "retrievePriceList (Some ''price-list-1'') example_price_lists
     = Inr [(''id'', VStr ''price-list-1''), (''number_rules'', VInt 0)]
   \<and> retrievePriceList (Some ''does-not-exist'') example_price_lists
       = Inl ''PriceList with id: does-not-exist was not found''
   \<and> updatePriceLists [(''does-not-exist'', [(''number_rules'', VInt 2)])] example_price_lists
       = Inl (''PriceList with id '' @ double_quote @ ''does-not-exist'' @ double_quote @ '' not found'')"
proof -
  have ids: "map row_id example_price_lists = [Some ''price-list-1'', Some ''price-list-2'']"
    by (simp add: example_price_lists_def row_id_def)
  have ex: "\<exists>row \<in> set example_price_lists. row_id row = Some ''price-list-1''"
    by (simp add: example_price_lists_def row_id_def)
  have nex: "\<forall>row \<in> set example_price_lists. row_id row \<noteq> Some ''does-not-exist''"
    by (simp add: example_price_lists_def row_id_def)
  have r1: "\<exists>row. retrievePriceList (Some ''price-list-1'') example_price_lists = Inr row
              \<and> row \<in> set example_price_lists \<and> row_id row = Some ''price-list-1''"
    using ex retrievePriceList_results [of example_price_lists "''price-list-1''" "[]"] by blast
  have r1': "retrievePriceList (Some ''price-list-1'') example_price_lists
     = Inr [(''id'', VStr ''price-list-1''), (''number_rules'', VInt 0)]"
    using r1 by (auto simp add: example_price_lists_def row_id_def)
  have r2: "retrievePriceList (Some ''does-not-exist'') example_price_lists
       = Inl (''PriceList with id: '' @ ''does-not-exist'' @ '' was not found'')"
    using nex retrievePriceList_results [of example_price_lists "''does-not-exist''" "[]"] by blast
  have r3: "updatePriceLists ([] @ (''does-not-exist'', [(''number_rules'', VInt 2)]) # []) example_price_lists
       = Inl (''PriceList with id '' @ double_quote @ ''does-not-exist'' @ double_quote @ '' not found'')"
    using nex retrievePriceList_results [of example_price_lists "''does-not-exist''" "[]"
        "[(''number_rules'', VInt 2)]" "[]"] by simp
  show ?thesis using r1' r2 r3 by simp
qed

text \<open>
  C4. \<^verbatim>\<open>listAndCountPriceLists\<close> returns the price lists that match the filter, restricted
  to the page given by \<^verbatim>\<open>skip\<close> and \<^verbatim>\<open>take\<close> (each of them given or not) and to the fields
  given by \<^verbatim>\<open>select\<close>, together with the number of all price lists that match the filter;
  the number does not depend on \<^verbatim>\<open>skip\<close> and \<^verbatim>\<open>take\<close>.
\<close>

theorem listAndCountPriceLists_page_and_count:
  "snd (listAndCountPriceLists filters config db) = length (filter (matches filters) db)
   \<and> snd (listAndCountPriceLists filters (config\<lparr>cfg_skip := s, cfg_take := t\<rparr>) db)
       = snd (listAndCountPriceLists filters config db)
   \<and> (\<forall>row \<in> set (fst (listAndCountPriceLists filters config db)).
        \<exists>r \<in> set db. matches filters r \<and> row = select_fields config r)
   \<and> (cfg_skip config = Some m \<and> cfg_take config = Some n \<longrightarrow>
        fst (listAndCountPriceLists filters config db)
          = map (select_fields config) (take n (drop m (filter (matches filters) db))))
   \<and> (cfg_skip config = Some m \<and> cfg_take config = None \<longrightarrow>
        fst (listAndCountPriceLists filters config db)
          = map (select_fields config) (drop m (filter (matches filters) db)))
   \<and> (cfg_skip config = None \<and> cfg_take config = Some n \<longrightarrow>
        fst (listAndCountPriceLists filters config db)
          = map (select_fields config) (take n (filter (matches filters) db)))
   \<and> (cfg_skip config = None \<and> cfg_take config = None \<longrightarrow>
        fst (listAndCountPriceLists filters config db)
          = map (select_fields config) (filter (matches filters) db))
   \<and> (\<forall>names. cfg_select config = Some names \<longrightarrow>
        (\<forall>row. select_fields config row = filter (\<lambda>(k, v). k \<in> set names) row) \<and>
        (\<forall>row \<in> set (fst (listAndCountPriceLists filters config db)).
           fst ` set row \<subseteq> set names))
   \<and> (cfg_select config = None \<longrightarrow>
        (\<forall>row. select_fields config row = row) \<and>
        set (fst (listAndCountPriceLists filters config db)) \<subseteq> set db)
   \<and> (filter_id filters = None \<longrightarrow> filter (matches filters) db = db)
   \<and> (\<forall>ids. filter_id filters = Some ids \<longrightarrow>
        filter (matches filters) db
          = filter (\<lambda>row. \<exists>i \<in> set ids. row_id row = Some i) db)"
proof -
  have rows: "\<forall>row \<in> set (fst (listAndCountPriceLists filters config db)).
        \<exists>r \<in> set db. matches filters r \<and> row = select_fields config r"
    using set_paginate_subset [of config "filter (matches filters) db"]
    by (auto simp add: listAndCountPriceLists_def listPriceLists_def)
  have sel: "\<forall>names. cfg_select config = Some names \<longrightarrow>
        (\<forall>row. select_fields config row = filter (\<lambda>(k, v). k \<in> set names) row) \<and>
        (\<forall>row \<in> set (fst (listAndCountPriceLists filters config db)).
           fst ` set row \<subseteq> set names)"
    by (auto simp add: listAndCountPriceLists_def listPriceLists_def select_fields_def)
  have nosel: "cfg_select config = None \<longrightarrow>
        (\<forall>row. select_fields config row = row) \<and>
        set (fst (listAndCountPriceLists filters config db)) \<subseteq> set db"
    using set_paginate_subset [of config "filter (matches filters) db"]
    by (auto simp add: listAndCountPriceLists_def listPriceLists_def select_fields_def)
  have page: "cfg_skip config = Some m \<and> cfg_take config = Some n \<longrightarrow>
        fst (listAndCountPriceLists filters config db)
          = map (select_fields config) (take n (drop m (filter (matches filters) db)))"
    by (simp add: listAndCountPriceLists_def listPriceLists_def paginate_def)
  have skip_only: "cfg_skip config = Some m \<and> cfg_take config = None \<longrightarrow>
        fst (listAndCountPriceLists filters config db)
          = map (select_fields config) (drop m (filter (matches filters) db))"
    by (simp add: listAndCountPriceLists_def listPriceLists_def paginate_def)
  have take_only: "cfg_skip config = None \<and> cfg_take config = Some n \<longrightarrow>
        fst (listAndCountPriceLists filters config db)
          = map (select_fields config) (take n (filter (matches filters) db))"
    by (simp add: listAndCountPriceLists_def listPriceLists_def paginate_def)
  have nopage: "cfg_skip config = None \<and> cfg_take config = None \<longrightarrow>
        fst (listAndCountPriceLists filters config db)
          = map (select_fields config) (filter (matches filters) db)"
    by (simp add: listAndCountPriceLists_def listPriceLists_def paginate_def)
  have all_match: "filter_id filters = None \<longrightarrow> filter (matches filters) db = db"
    by (simp add: matches_def)
  have by_id: "\<forall>ids. filter_id filters = Some ids \<longrightarrow>
        filter (matches filters) db
          = filter (\<lambda>row. \<exists>i \<in> set ids. row_id row = Some i) db"
  proof (intro allI impI)
    fix ids
    assume ids: "filter_id filters = Some ids"
    have "matches filters row = (\<exists>i \<in> set ids. row_id row = Some i)" for row
      using ids by (cases "row_id row") (auto simp add: matches_def)
    then have "matches filters = (\<lambda>row. \<exists>i \<in> set ids. row_id row = Some i)"
      by (simp add: fun_eq_iff)
    then show "filter (matches filters) db
          = filter (\<lambda>row. \<exists>i \<in> set ids. row_id row = Some i) db"
      by simp
  qed
  have cnt: "snd (listAndCountPriceLists filters c db) = length (filter (matches filters) db)" for c
    by (simp add: listAndCountPriceLists_def)
  have cnt': "snd (listAndCountPriceLists filters (config\<lparr>cfg_skip := s, cfg_take := t\<rparr>) db)
       = snd (listAndCountPriceLists filters config db)"
    by (simp add: cnt)
  show ?thesis
    using cnt [of config] cnt' rows sel nosel page skip_only take_only nopage all_match by_id
    by blast
qed

theorem listAndCountPriceLists_page_and_count_witness:
  "listAndCountPriceLists \<lparr>filter_id = None\<rparr>
     \<lparr>cfg_skip = Some 1, cfg_take = Some 1, cfg_select = None\<rparr> example_price_lists
     = ([[(''id'', VStr ''price-list-2''), (''number_rules'', VInt 0)]], 2)
   \<and> listAndCountPriceLists \<lparr>filter_id = None\<rparr>
       \<lparr>cfg_skip = None, cfg_take = Some 1, cfg_select = Some [''id'']\<rparr> example_price_lists
     = ([[(''id'', VStr ''price-list-1'')]], 2)
   \<and> listAndCountPriceLists \<lparr>filter_id = None\<rparr>
       \<lparr>cfg_skip = Some 1, cfg_take = None, cfg_select = None\<rparr> example_price_lists
     = ([[(''id'', VStr ''price-list-2''), (''number_rules'', VInt 0)]], 2)
   \<and> listAndCountPriceLists \<lparr>filter_id = Some [''price-list-1'']\<rparr>
       \<lparr>cfg_skip = None, cfg_take = None, cfg_select = None\<rparr> example_price_lists
     = ([[(''id'', VStr ''price-list-1''), (''number_rules'', VInt 0)]], 1)"
proof -
  let ?all = "\<lparr>filter_id = None\<rparr>"
  let ?one = "\<lparr>filter_id = Some [''price-list-1'']\<rparr>"
  let ?c1 = "\<lparr>cfg_skip = Some 1, cfg_take = Some 1, cfg_select = None\<rparr>"
  let ?c2 = "\<lparr>cfg_skip = None, cfg_take = Some 1, cfg_select = Some [''id'']\<rparr>"
  let ?c3 = "\<lparr>cfg_skip = Some 1, cfg_take = None, cfg_select = None\<rparr>"
  let ?c4 = "\<lparr>cfg_skip = None, cfg_take = None, cfg_select = None\<rparr>"
  have ids: "filter (\<lambda>row. \<exists>i \<in> set [''price-list-1'']. row_id row = Some i) example_price_lists
               = [[(''id'', VStr ''price-list-1''), (''number_rules'', VInt 0)]]"
    by (simp add: example_price_lists_def row_id_def)
  have len: "length example_price_lists = 2"
    by (simp add: example_price_lists_def)
  have t1: "take (Suc 0) (drop (Suc 0) example_price_lists)
              = [[(''id'', VStr ''price-list-2''), (''number_rules'', VInt 0)]]"
    by (simp add: example_price_lists_def)
  have t2: "map (filter (\<lambda>(k, v). k \<in> set [''id''])) (take 1 example_price_lists)
              = [[(''id'', VStr ''price-list-1'')]]"
    by (simp add: example_price_lists_def)
  have t2': "map (filter (\<lambda>(k, v). k = ''id'')) (take (Suc 0) example_price_lists)
              = [[(''id'', VStr ''price-list-1'')]]"
    using t2 by simp
  have t3: "drop (Suc 0) example_price_lists
              = [[(''id'', VStr ''price-list-2''), (''number_rules'', VInt 0)]]"
    by (simp add: example_price_lists_def)
  have m_all: "filter (matches ?all) example_price_lists = example_price_lists"
    using listAndCountPriceLists_page_and_count [of ?all ?c4 example_price_lists None None 0 0]
    by simp
  have m_one: "filter (matches ?one) example_price_lists
                 = [[(''id'', VStr ''price-list-1''), (''number_rules'', VInt 0)]]"
    using ids listAndCountPriceLists_page_and_count [of ?one ?c4 example_price_lists None None 0 0]
    by simp
  have "fst (listAndCountPriceLists ?all ?c1 example_price_lists)
          = map (select_fields ?c1) (take 1 (drop 1 (filter (matches ?all) example_price_lists)))
        \<and> snd (listAndCountPriceLists ?all ?c1 example_price_lists)
          = length (filter (matches ?all) example_price_lists)
        \<and> select_fields ?c1 = (\<lambda>row. row)"
    using listAndCountPriceLists_page_and_count [of ?all ?c1 example_price_lists None None 1 1]
    by (simp add: fun_eq_iff)
  then have 1: "listAndCountPriceLists ?all ?c1 example_price_lists
             = ([[(''id'', VStr ''price-list-2''), (''number_rules'', VInt 0)]], 2)"
    by (elim conjE) (simp add: prod_eq_iff m_all len t1 t3)
  have "fst (listAndCountPriceLists ?all ?c2 example_price_lists)
          = map (select_fields ?c2) (take 1 (filter (matches ?all) example_price_lists))
        \<and> snd (listAndCountPriceLists ?all ?c2 example_price_lists)
          = length (filter (matches ?all) example_price_lists)
        \<and> select_fields ?c2 = filter (\<lambda>(k, v). k \<in> set [''id''])"
    using listAndCountPriceLists_page_and_count [of ?all ?c2 example_price_lists None None 0 1]
    by (simp add: fun_eq_iff)
  then have 2: "listAndCountPriceLists ?all ?c2 example_price_lists
             = ([[(''id'', VStr ''price-list-1'')]], 2)"
    by (elim conjE) (simp add: prod_eq_iff m_all len t2')
  have "fst (listAndCountPriceLists ?all ?c3 example_price_lists)
          = map (select_fields ?c3) (drop 1 (filter (matches ?all) example_price_lists))
        \<and> snd (listAndCountPriceLists ?all ?c3 example_price_lists)
          = length (filter (matches ?all) example_price_lists)
        \<and> select_fields ?c3 = (\<lambda>row. row)"
    using listAndCountPriceLists_page_and_count [of ?all ?c3 example_price_lists None None 1 0]
    by (simp add: fun_eq_iff)
  then have 3: "listAndCountPriceLists ?all ?c3 example_price_lists
             = ([[(''id'', VStr ''price-list-2''), (''number_rules'', VInt 0)]], 2)"
    by (elim conjE) (simp add: prod_eq_iff m_all len t3)
  have "fst (listAndCountPriceLists ?one ?c4 example_price_lists)
          = map (select_fields ?c4) (filter (matches ?one) example_price_lists)
        \<and> snd (listAndCountPriceLists ?one ?c4 example_price_lists)
          = length (filter (matches ?one) example_price_lists)
        \<and> select_fields ?c4 = (\<lambda>row. row)"
    using listAndCountPriceLists_page_and_count [of ?one ?c4 example_price_lists None None 0 0]
    by (simp add: fun_eq_iff)
  then have 4: "listAndCountPriceLists ?one ?c4 example_price_lists
             = ([[(''id'', VStr ''price-list-1''), (''number_rules'', VInt 0)]], 1)"
    by (elim conjE) (simp add: prod_eq_iff m_one)
  show ?thesis using 1 2 3 4 by simp
qed

text \<open>
  C5. After \<^verbatim>\<open>deletePriceLists([id])\<close>, \<^verbatim>\<open>listPriceLists({ id: [id] })\<close> returns the empty
  list, for every id (of an existing price list or not) and every find configuration.
\<close>

theorem delete_then_list_by_id_is_empty:
  "listPriceLists \<lparr>filter_id = Some [i]\<rparr> config (deletePriceLists [i] db) = []"
proof -
  have "filter (matches \<lparr>filter_id = Some [i]\<rparr>) (deletePriceLists [i] db) = []"
    by (auto simp add: deletePriceLists_def matches_def filter_empty_conv split: option.splits)
  then show ?thesis
    by (simp add: listPriceLists_def paginate_def Let_def split: option.splits)
qed

theorem delete_then_list_by_id_is_empty_witness:
  "listPriceLists \<lparr>filter_id = Some [''price-list-1'']\<rparr>
     \<lparr>cfg_skip = None, cfg_take = None, cfg_select = None\<rparr> example_price_lists
     = [[(''id'', VStr ''price-list-1''), (''number_rules'', VInt 0)]]
   \<and> deletePriceLists [''price-list-1''] example_price_lists
     = [[(''id'', VStr ''price-list-2''), (''number_rules'', VInt 0)]]
   \<and> listPriceLists \<lparr>filter_id = Some [''price-list-1'']\<rparr>
       \<lparr>cfg_skip = None, cfg_take = None, cfg_select = None\<rparr>
       (deletePriceLists [''price-list-1''] example_price_lists)
     = []"
proof -
  have 1: "listPriceLists \<lparr>filter_id = Some [''price-list-1'']\<rparr>
     \<lparr>cfg_skip = None, cfg_take = None, cfg_select = None\<rparr> example_price_lists
     = [[(''id'', VStr ''price-list-1''), (''number_rules'', VInt 0)]]"
    by (simp add: listPriceLists_def paginate_def
        example_price_lists_def select_fields_def matches_def row_id_def)
  have 2: "deletePriceLists [''price-list-1''] example_price_lists
     = [[(''id'', VStr ''price-list-2''), (''number_rules'', VInt 0)]]"
    by (simp add: deletePriceLists_def example_price_lists_def row_id_def)
  show ?thesis
    using 1 2 delete_then_list_by_id_is_empty
      [of "''price-list-1''" "\<lparr>cfg_skip = None, cfg_take = None, cfg_select = None\<rparr>"
          example_price_lists]
    by simp
qed

text \<open>
  C6, as amended. The handler of GET /shipping-options validates the query before it
  delegates: \<^verbatim>\<open>region_id\<close>, when present, must be a string; \<^verbatim>\<open>is_return\<close> and
  \<^verbatim>\<open>admin_only\<close>, when present, are mapped by the optional-boolean mapper, and the mapped
  value must be a boolean unless it is undefined or null, in which case the property counts
  as absent and passes. With a mapper that only gives booleans, null and undefined, these
  two properties therefore never fail, and validation is decided by \<^verbatim>\<open>region_id\<close> alone.
  When validation fails the error is thrown and the service is not called. Otherwise
  \<^verbatim>\<open>listAndCount\<close> is called once, with the validated parameters and the default fields and
  relations, and when it returns the response has status 200 and a body with
  \<^verbatim>\<open>shipping_options\<close> and \<^verbatim>\<open>count\<close>.
\<close>

theorem list_shipping_options_validates_then_delegates:
  "(\<forall>e. validator mapper_get query = Inl e \<longrightarrow>
      list_shipping_options mapper_get defaultFields defaultRelations listAndCount query calls
        = (Inl (Validation_failed e), calls))
   \<and> (\<forall>p. validator mapper_get query = Inr p \<longrightarrow>
      snd (list_shipping_options mapper_get defaultFields defaultRelations listAndCount query calls)
        = calls @ [(p, \<lparr>select = defaultFields, relations = defaultRelations\<rparr>)]
      \<and> (\<forall>data n.
            listAndCount p \<lparr>select = defaultFields, relations = defaultRelations\<rparr> = Inr (data, n) \<longrightarrow>
            fst (list_shipping_options mapper_get defaultFields defaultRelations listAndCount
                   query calls)
              = Inr \<lparr>status = 200, body = \<lparr>shipping_options = data, count = n\<rparr>\<rparr>))
   \<and> ((\<exists>p. validator mapper_get query = Inr p) \<longleftrightarrow>
        (IsOptional (region_id query) \<or> IsString (region_id query)) \<and>
        (IsOptional (Transform mapper_get (is_return query)) \<or>
         IsBoolean (Transform mapper_get (is_return query))) \<and>
        (IsOptional (Transform mapper_get (admin_only query)) \<or>
         IsBoolean (Transform mapper_get (admin_only query))))
   \<and> ((\<forall>v. mapper_get v = Undefined \<or> mapper_get v = Null \<or> IsBoolean (mapper_get v)) \<longrightarrow>
        ((\<exists>p. validator mapper_get query = Inr p) \<longleftrightarrow>
           IsOptional (region_id query) \<or> IsString (region_id query)))"
proof -
  have a: "\<forall>e. validator mapper_get query = Inl e \<longrightarrow>
      list_shipping_options mapper_get defaultFields defaultRelations listAndCount query calls
        = (Inl (Validation_failed e), calls)"
    by (simp add: list_shipping_options_def)
  have b: "\<forall>p. validator mapper_get query = Inr p \<longrightarrow>
      snd (list_shipping_options mapper_get defaultFields defaultRelations listAndCount query calls)
        = calls @ [(p, \<lparr>select = defaultFields, relations = defaultRelations\<rparr>)]
      \<and> (\<forall>data n.
            listAndCount p \<lparr>select = defaultFields, relations = defaultRelations\<rparr> = Inr (data, n) \<longrightarrow>
            fst (list_shipping_options mapper_get defaultFields defaultRelations listAndCount
                   query calls)
              = Inr \<lparr>status = 200, body = \<lparr>shipping_options = data, count = n\<rparr>\<rparr>)"
    by (simp add: list_shipping_options_def Let_def split: sum.split prod.split)
  have c: "(\<forall>v. mapper_get v = Undefined \<or> mapper_get v = Null \<or> IsBoolean (mapper_get v)) \<longrightarrow>
        ((\<exists>p. validator mapper_get query = Inr p) \<longleftrightarrow>
           IsOptional (region_id query) \<or> IsString (region_id query))"
  proof
    assume range: "\<forall>v. mapper_get v = Undefined \<or> mapper_get v = Null \<or> IsBoolean (mapper_get v)"
    have "IsOptional (Transform mapper_get v) \<or> IsBoolean (Transform mapper_get v)" for v
      using range [rule_format, of v]
      by (cases v) (auto simp add: Transform_def IsOptional_def)
    then show "(\<exists>p. validator mapper_get query = Inr p) \<longleftrightarrow>
           IsOptional (region_id query) \<or> IsString (region_id query)"
      by (simp add: validator_Inr_iff)
  qed
  show ?thesis
    using a b c validator_Inr_iff [of mapper_get query] by blast
qed

theorem list_shipping_options_validates_then_delegates_witness:
  "validator example_mapper_get
     \<lparr>region_id = Arr [Str ''reg_1'', Str ''reg_2''], is_return = Undefined, admin_only = Undefined\<rparr>
     = Inl (Invalid_data [''region_id''])
   \<and> list_shipping_options example_mapper_get [''id''] [''region''] example_listAndCount
        \<lparr>region_id = Arr [Str ''reg_1'', Str ''reg_2''], is_return = Undefined, admin_only = Undefined\<rparr> []
       = (Inl (Validation_failed (Invalid_data [''region_id''])), [])
   \<and> validator example_mapper_get
        \<lparr>region_id = Str ''reg_1'', is_return = Str ''true'', admin_only = Undefined\<rparr>
       = Inr \<lparr>region_id = Str ''reg_1'', is_return = Bool True, admin_only = Undefined\<rparr>
   \<and> list_shipping_options example_mapper_get [''id''] [''region''] example_listAndCount
        \<lparr>region_id = Str ''reg_1'', is_return = Str ''true'', admin_only = Undefined\<rparr> []
       = (Inr \<lparr>status = 200, body = \<lparr>shipping_options = [''so_1'', ''so_2''], count = 2\<rparr>\<rparr>,
          [(\<lparr>region_id = Str ''reg_1'', is_return = Bool True, admin_only = Undefined\<rparr>,
            \<lparr>select = [''id''], relations = [''region'']\<rparr>)])"
proof -
  let ?bad = "\<lparr>region_id = Arr [Str ''reg_1'', Str ''reg_2''], is_return = Undefined,
               admin_only = Undefined\<rparr>"
  let ?good = "\<lparr>region_id = Str ''reg_1'', is_return = Str ''true'', admin_only = Undefined\<rparr>"
  let ?p = "\<lparr>region_id = Str ''reg_1'', is_return = Bool True, admin_only = Undefined\<rparr>"
  have bad: "validator example_mapper_get ?bad = Inl (Invalid_data [''region_id''])"
    by (simp add: validator_def Let_def Transform_def IsOptional_def IsString_def IsBoolean_def)
  have good: "validator example_mapper_get ?good = Inr ?p"
    by (simp add: validator_def Let_def Transform_def IsOptional_def IsString_def IsBoolean_def
        example_mapper_get_def)
  have svc: "example_listAndCount ?p \<lparr>select = [''id''], relations = [''region'']\<rparr>
               = Inr ([''so_1'', ''so_2''], 2)"
    by (simp add: example_listAndCount_def)
  have t1: "list_shipping_options example_mapper_get [''id''] [''region''] example_listAndCount ?bad []
              = (Inl (Validation_failed (Invalid_data [''region_id''])), [])"
    using bad list_shipping_options_validates_then_delegates
      [of example_mapper_get ?bad "[''id'']" "[''region'']" example_listAndCount "[]"]
    by blast
  have t2: "snd (list_shipping_options example_mapper_get [''id''] [''region''] example_listAndCount ?good [])
              = [] @ [(?p, \<lparr>select = [''id''], relations = [''region'']\<rparr>)]
            \<and> fst (list_shipping_options example_mapper_get [''id''] [''region''] example_listAndCount ?good [])
              = Inr \<lparr>status = 200, body = \<lparr>shipping_options = [''so_1'', ''so_2''], count = 2\<rparr>\<rparr>"
    using good svc list_shipping_options_validates_then_delegates
      [of example_mapper_get ?good "[''id'']" "[''region'']" example_listAndCount "[]"]
    by blast
  show ?thesis
    using bad good t1 t2 by (simp add: prod_eq_iff)
qed

text \<open>
  C6 as stated fails for a present \<^verbatim>\<open>is_return\<close> that the mapper does not know: the value
  \<^verbatim>\<open>yes\<close> is mapped to undefined, which is not a boolean, and yet validation passes and the
  service is called, with \<^verbatim>\<open>is_return\<close> undefined.
\<close>

theorem list_shipping_options_accepts_unmapped_flag:
  "example_mapper_get (Str ''yes'') = Undefined
   \<and> \<not> IsBoolean (example_mapper_get (Str ''yes''))
   \<and> list_shipping_options example_mapper_get [''id''] [''region''] example_listAndCount
        \<lparr>region_id = Undefined, is_return = Str ''yes'', admin_only = Undefined\<rparr> []
       = (Inr \<lparr>status = 200, body = \<lparr>shipping_options = [], count = 0\<rparr>\<rparr>,
          [(\<lparr>region_id = Undefined, is_return = Undefined, admin_only = Undefined\<rparr>,
            \<lparr>select = [''id''], relations = [''region'']\<rparr>)])"
  by (simp add: list_shipping_options_def validator_def Let_def Transform_def IsOptional_def
      IsString_def IsBoolean_def example_mapper_get_def example_listAndCount_def)

text \<open>
  C7, as amended. The handler of DELETE /admin/products/{id} delegates without validating:
  for every request, whatever the id, it opens one transaction and calls
  \<^verbatim>\<open>productService.delete\<close> once inside it, with the id of the path as it is; when the service
  returns, the transaction commits and the response is exactly the object with \<^verbatim>\<open>id\<close> that
  id, \<^verbatim>\<open>object\<close> the string \<^verbatim>\<open>product\<close> and \<^verbatim>\<open>deleted\<close> true; when the service throws, the
  transaction is rolled back and the error is thrown on.
\<close>

theorem delete_product_delegates:
  "snd (snd (delete_product delete req db log))
     = log @ [Tx_begin, Product_delete (params_id req),
              (case delete (params_id req) db of Inl e \<Rightarrow> Tx_rollback | Inr db' \<Rightarrow> Tx_commit)]
   \<and> (\<forall>db'. delete (params_id req) db = Inr db' \<longrightarrow>
          delete_product delete req db log
            = (Inr \<lparr>res_id = params_id req, res_object = ''product'', res_deleted = True\<rparr>,
               db', log @ [Tx_begin, Product_delete (params_id req), Tx_commit]))
   \<and> (\<forall>e. delete (params_id req) db = Inl e \<longrightarrow>
          delete_product delete req db log
            = (Inl e, db, log @ [Tx_begin, Product_delete (params_id req), Tx_rollback]))
   \<and> Product_delete (params_id req) \<in> set (snd (snd (delete_product delete req db log)))"
  by (simp add: delete_product_def manager_transaction_delete Let_def split: sum.split)

theorem delete_product_delegates_witness:
  "example_delete ''prod_1'' [''prod_1'', ''prod_2''] = Inr [''prod_2'']
   \<and> delete_product example_delete \<lparr>params_id = ''prod_1''\<rparr> [''prod_1'', ''prod_2''] []
       = (Inr \<lparr>res_id = ''prod_1'', res_object = ''product'', res_deleted = True\<rparr>,
          [''prod_2''], [Tx_begin, Product_delete ''prod_1'', Tx_commit])"
proof -
  have ok: "example_delete ''prod_1'' [''prod_1'', ''prod_2''] = Inr [''prod_2'']"
    by (simp add: example_delete_def)
  show ?thesis
    using ok delete_product_delegates
      [of example_delete "\<lparr>params_id = ''prod_1''\<rparr>" "[''prod_1'', ''prod_2'']" "[]"]
    by simp
qed

text \<open>
  C7 as stated fails in that the handler validates nothing: an id that is a single blank,
  and the id of no product, is handed to the service, and when the service returns the
  answer is \<^verbatim>\<open>deleted\<close> true.
\<close>

theorem delete_product_validates_nothing:
  "delete_product example_delete_quiet \<lparr>params_id = '' ''\<rparr> [''prod_1''] []
     = (Inr \<lparr>res_id = '' '', res_object = ''product'', res_deleted = True\<rparr>,
        [''prod_1''], [Tx_begin, Product_delete '' '', Tx_commit])"
  by (simp add: delete_product_def manager_transaction_def productService_delete_def
      example_delete_quiet_def Let_def)




text \<open>
  C9. \<^verbatim>\<open>buildCustomOptions\<close> changes only the \<^verbatim>\<open>onSuccess\<close> property of the options it is
  given: every other property is in the result unchanged (and there is none when no options
  were given). The wrapped \<^verbatim>\<open>onSuccess\<close> returns the value that the caller's \<^verbatim>\<open>onSuccess\<close>
  returns for the same arguments, and undefined when the caller gave none.
\<close>

theorem buildCustomOptions_changes_only_onSuccess:
  "buildCustomOptions K queryKey (Some opts) relatedDomains
     = opts\<lparr>onSuccess := onSuccess (buildCustomOptions K queryKey (Some opts) relatedDomains)\<rparr>
   \<and> others (buildCustomOptions K queryKey (Some opts) relatedDomains) = others opts
   \<and> others (buildCustomOptions K queryKey None relatedDomains
               :: ('a, 'r, 'v) UseMutationOptions) = Map.empty
   \<and> (\<exists>f. onSuccess (buildCustomOptions K queryKey options relatedDomains) = Some f \<and>
          (\<forall>args queryClient.
             fst (f args queryClient)
               = (case options_onSuccess options of
                    None \<Rightarrow> None
                  | Some g \<Rightarrow>
                      fst (g args (queryClient @ custom_invalidations K queryKey relatedDomains)))))"
proof -
  have 1: "buildCustomOptions K queryKey (Some opts) relatedDomains
     = opts\<lparr>onSuccess := onSuccess (buildCustomOptions K queryKey (Some opts) relatedDomains)\<rparr>"
    by (simp add: buildCustomOptions_def spread_onSuccess_def)
  have 2: "onSuccess (buildCustomOptions K queryKey options relatedDomains)
             = Some (customOnSuccess K queryKey options relatedDomains)"
    by (cases options) (simp_all add: buildCustomOptions_def spread_onSuccess_def)
  have 3: "fst (customOnSuccess K queryKey options relatedDomains args queryClient)
               = (case options_onSuccess options of
                    None \<Rightarrow> None
                  | Some g \<Rightarrow>
                      fst (g args (queryClient @ custom_invalidations K queryKey relatedDomains)))"
    for args queryClient
    by (simp add: customOnSuccess_eq mutation_succeeds_def split: option.split)
  show ?thesis
    using 1 2 3 by (simp add: buildCustomOptions_def others_spread)
qed

theorem buildCustomOptions_changes_only_onSuccess_witness:
  "others (buildCustomOptions example_keys (Some [KStr ''posts'']) (Some example_options)
             (Some [(RD_order, True)])) ''retry'' = Some 3
   \<and> (\<exists>f. onSuccess (buildCustomOptions example_keys (Some [KStr ''posts''])
                         (Some example_options) (Some [(RD_order, True)])) = Some f
          \<and> fst (f () []) = Some 2)"
proof -
  have calls: "custom_invalidations example_keys (Some [KStr ''posts'']) (Some [(RD_order, True)])
               = [Filters (KStr ''posts''), Key [KStr ''admin_orders'']]"
    by (simp add: custom_invalidations_def truthy_flag_def Object_keys_def domain_all_def
        example_keys_def)
  have caller: "options_onSuccess (Some example_options)
                  = Some (\<lambda>args queryClient. (Some (length queryClient), queryClient))"
    by (simp add: options_onSuccess_def example_options_def)
  have other: "others example_options ''retry'' = Some 3"
    by (simp add: example_options_def)
  show ?thesis
    using buildCustomOptions_changes_only_onSuccess
      [of example_keys "Some [KStr ''posts'']" example_options "Some [(RD_order, True)]"
          "Some example_options"]
    by (auto simp add: calls caller other)
qed

text \<open>
  C10. \<^verbatim>\<open>swapKey.cart(cartId)\<close>, the key of \<^verbatim>\<open>useCartSwap\<close>, is \<^verbatim>\<open>swapKey.all\<close> extended by
  the string \<^verbatim>\<open>cart\<close> and the cart id: the key of the swaps domain is a prefix of it, and different
  cart ids give different keys.
\<close>

theorem swapKey_cart_extends_all:
  "swapKey_cart swapKey cartId = all_key swapKey @ [KStr ''cart'', KStr cartId]
   \<and> useCartSwap swapKey cartId = swapKey_cart swapKey cartId
   \<and> prefix (all_key swapKey) (swapKey_cart swapKey cartId)
   \<and> (cartId \<noteq> cartId' \<longrightarrow> swapKey_cart swapKey cartId \<noteq> swapKey_cart swapKey cartId')"
  by (simp add: swapKey_cart_def useCartSwap_def)

theorem swapKey_cart_extends_all_witness:
  "''cart_1'' \<noteq> ''cart_2''
   \<and> swapKey_cart (example_factory ''swaps'') ''cart_1'' = [KStr ''swaps'', KStr ''cart'', KStr ''cart_1'']
   \<and> prefix [KStr ''swaps''] (swapKey_cart (example_factory ''swaps'') ''cart_1'')
   \<and> swapKey_cart (example_factory ''swaps'') ''cart_1''
        \<noteq> swapKey_cart (example_factory ''swaps'') ''cart_2''"
  using swapKey_cart_extends_all [of "example_factory ''swaps''" "''cart_1''" "''cart_2''"]
  by (simp add: example_factory_def swapKey_cart_def)

end
